theory Spec2Isabelle
  imports Main "HOL-Library.Word"
begin

section \<open>The cart service of the QKart backend\<close>

text \<open>
  A shallow embedding of \<^verbatim>\<open>src/services/cart.service.js\<close>. The service reads and
  writes three Mongo collections through Mongoose models. A collection is a list of
  documents; a document fetched with \<^verbatim>\<open>findOne\<close> is a copy held by the
  request, and the collection changes only at \<^verbatim>\<open>create\<close> and
  \<^verbatim>\<open>save\<close>. Every \<^verbatim>\<open>throw\<close> of the source is an \<open>Inl\<close> result.
\<close>

subsection \<open>Numbers\<close>

text \<open>
  Costs, quantities and wallet balances are JavaScript numbers, that is IEEE 754 doubles.
  The model covers the whole-valued ones (amounts in the smallest currency unit, whole
  quantities) together with the two infinities and NaN, which the arithmetic of the
  source can produce from them. A sum or product of whole doubles is computed exactly and
  then rounded to 53 significant bits, ties to even; a rounded magnitude of \<open>2 ^ 1024\<close>
  or more is an infinity.
\<close>

datatype number = Num int | PosInf | NegInf | NaN

text \<open>The number of binary digits of a positive integer.\<close>

function bitlen :: "int \<Rightarrow> nat" where
  "bitlen n = (if n \<le> 0 then 0 else Suc (bitlen (n div 2)))"
  by pat_completeness auto
termination
  by (relation "measure nat") auto

declare bitlen.simps [simp del]

definition fl :: "int \<Rightarrow> int" where
  "fl n = (if \<bar>n\<bar> < 2 ^ 53 then n
           else (let e = bitlen \<bar>n\<bar> - 53;
                     q = \<bar>n\<bar> div 2 ^ e;
                     r = \<bar>n\<bar> mod 2 ^ e;
                     h = 2 ^ (e - 1);
                     q' = (if h < r \<or> (r = h \<and> odd q) then q + 1 else q)
                 in sgn n * (q' * 2 ^ e)))"

definition js_round :: "int \<Rightarrow> number" where
  "js_round n = (let r = fl n in
                 if 2 ^ 1024 \<le> r then PosInf
                 else if r \<le> - (2 ^ 1024) then NegInf
                 else Num r)"

fun num_add :: "number \<Rightarrow> number \<Rightarrow> number" where
  "num_add (Num a) (Num b) = js_round (a + b)"
| "num_add NaN y = NaN"
| "num_add x NaN = NaN"
| "num_add PosInf NegInf = NaN"
| "num_add NegInf PosInf = NaN"
| "num_add PosInf y = PosInf"
| "num_add x PosInf = PosInf"
| "num_add NegInf y = NegInf"
| "num_add x NegInf = NegInf"

fun num_neg :: "number \<Rightarrow> number" where
  "num_neg (Num a) = Num (- a)"
| "num_neg PosInf = NegInf"
| "num_neg NegInf = PosInf"
| "num_neg NaN = NaN"

definition num_sub :: "number \<Rightarrow> number \<Rightarrow> number" where
  "num_sub x y = num_add x (num_neg y)"

text \<open>The sign rule of a product with an infinity; zero times infinity is NaN.\<close>

definition inf_times :: "bool \<Rightarrow> int \<Rightarrow> number" where
  "inf_times positive b =
     (if b = 0 then NaN else if (0 < b) = positive then PosInf else NegInf)"

fun num_mul :: "number \<Rightarrow> number \<Rightarrow> number" where
  "num_mul (Num a) (Num b) = js_round (a * b)"
| "num_mul NaN y = NaN"
| "num_mul x NaN = NaN"
| "num_mul PosInf (Num b) = inf_times True b"
| "num_mul NegInf (Num b) = inf_times False b"
| "num_mul (Num a) PosInf = inf_times True a"
| "num_mul (Num a) NegInf = inf_times False a"
| "num_mul PosInf PosInf = PosInf"
| "num_mul PosInf NegInf = NegInf"
| "num_mul NegInf PosInf = NegInf"
| "num_mul NegInf NegInf = PosInf"

text \<open>\<^verbatim>\<open>x > y\<close>; every comparison with NaN is false.\<close>

fun num_gt :: "number \<Rightarrow> number \<Rightarrow> bool" where
  "num_gt (Num a) (Num b) = (b < a)"
| "num_gt NaN y = False"
| "num_gt x NaN = False"
| "num_gt x PosInf = False"
| "num_gt NegInf y = False"
| "num_gt PosInf y = True"
| "num_gt (Num a) NegInf = True"

subsection \<open>Object ids\<close>

text \<open>
  An ObjectId is a value of 12 bytes. \<^verbatim>\<open>mongoose.Types.ObjectId(x)\<close> accepts a
  string of 24 hexadecimal digits of either case, or a string of 12 characters taken as
  the 12 bytes, and throws on any other string; \<^verbatim>\<open>equals\<close> compares the bytes.
  \<open>None\<close> is the throw.
\<close>

type_synonym objectId = "96 word"

definition is_hex :: "char \<Rightarrow> bool" where
  "is_hex c = (let n = (of_char c :: nat) in
     (48 \<le> n \<and> n \<le> 57) \<or> (65 \<le> n \<and> n \<le> 70) \<or> (97 \<le> n \<and> n \<le> 102))"

definition hex_value :: "char \<Rightarrow> nat" where
  "hex_value c = (let n = (of_char c :: nat) in
     if n \<le> 57 then n - 48 else if n \<le> 70 then n - 55 else n - 87)"

definition ObjectId :: "string \<Rightarrow> objectId option" where
  "ObjectId x =
     (if length x = 24 \<and> list_all is_hex x
      then Some (word_of_nat (foldl (\<lambda>a c. 16 * a + hex_value c) 0 x))
      else if length x = 12
      then Some (word_of_nat (foldl (\<lambda>a c. 256 * a + of_char c) 0 x))
      else None)"

subsection \<open>Documents\<close>

record Product =
  oid :: objectId
  cost :: number

record CartItem =
  product :: Product
  quantity :: number

text \<open>
  The guards \<^verbatim>\<open>!cart.cartItems\<close> of the source allow for a document without an
  item list, which is \<open>None\<close> here; an empty array is truthy in JavaScript and is
  \<open>Some []\<close>.
\<close>

record Cart =
  email :: string
  cartItems :: "CartItem list option"
  paymentOption :: string

text \<open>
  Modelled from the spec: the User model is not part of the service file. The spec gives
  a user an email, a wallet balance and a default/non-default shipping address flag, read
  through the predicate \<^verbatim>\<open>hasSetNonDefaultAddress()\<close>.
\<close>

record User =
  email :: string
  walletMoney :: number
  nonDefaultAddress :: bool

definition hasSetNonDefaultAddress :: "User \<Rightarrow> bool" where
  "hasSetNonDefaultAddress user = nonDefaultAddress user"

text \<open>
  The configuration module is not part of the service file either; the one value read
  from it is a parameter of the model.
\<close>

record config =
  default_payment_option :: string

subsection \<open>Errors\<close>

definition BAD_REQUEST :: nat where "BAD_REQUEST = 400"
definition NOT_FOUND :: nat where "NOT_FOUND = 404"
definition INTERNAL_SERVER_ERROR :: nat where "INTERNAL_SERVER_ERROR = 500"

text \<open>
  \<open>ApiError\<close> carries the status code and the optional message of the source's
  \<^verbatim>\<open>new ApiError(status, message)\<close>. The other three are exceptions that the
  service lets through unchanged: \<open>StoreError\<close> of a rejected write (only the one of
  \<^verbatim>\<open>Cart.create\<close> is caught), \<open>ObjectIdError\<close> of the ObjectId constructor on a
  malformed string, and \<open>CastError\<close> of \<^verbatim>\<open>Product.findById\<close> on a malformed id.
\<close>

datatype error = ApiError nat "string option" | StoreError | ObjectIdError | CastError

subsection \<open>The store\<close>

record store =
  carts :: "Cart list"
  products :: "Product list"
  users :: "User list"

text \<open>The writes a request can issue; the environment says which of them are accepted.\<close>

datatype db_write = CartCreate | CartSave | UserSave

definition all_ok :: "db_write \<Rightarrow> bool" where
  "all_ok w = True"

definition Cart_findOne :: "string \<Rightarrow> store \<Rightarrow> Cart option" where
  "Cart_findOne e s = find (\<lambda>c. Cart.email c = e) (carts s)"

text \<open>\<^verbatim>\<open>findById\<close> casts its argument to an ObjectId before it queries.\<close>

definition Product_findById :: "string \<Rightarrow> store \<Rightarrow> error + Product option" where
  "Product_findById productId s =
     (case ObjectId productId of
        None \<Rightarrow> Inl CastError
      | Some i \<Rightarrow> Inr (find (\<lambda>p. oid p = i) (products s)))"

text \<open>
  \<^verbatim>\<open>doc.save()\<close> writes the document back in the place it was read from, and inserts
  it when the collection does not hold it. The document is identified by the predicate
  \<open>same\<close>; \<^verbatim>\<open>findOne\<close> returns the first match, and that is the one replaced.
\<close>

fun save_doc :: "('a \<Rightarrow> bool) \<Rightarrow> 'a \<Rightarrow> 'a list \<Rightarrow> 'a list" where
  "save_doc same d [] = [d]"
| "save_doc same d (x # xs) = (if same x then d # xs else x # save_doc same d xs)"

definition Cart_create :: "Cart \<Rightarrow> store \<Rightarrow> store" where
  "Cart_create c s = s\<lparr>carts := carts s @ [c]\<rparr>"

definition Cart_save :: "Cart \<Rightarrow> store \<Rightarrow> store" where
  "Cart_save c s = s\<lparr>carts := save_doc (\<lambda>x. Cart.email x = Cart.email c) c (carts s)\<rparr>"

definition User_save :: "User \<Rightarrow> store \<Rightarrow> store" where
  "User_save u s = s\<lparr>users := save_doc (\<lambda>x. User.email x = User.email u) u (users s)\<rparr>"

subsection \<open>Array helpers\<close>

text \<open>
  \<^verbatim>\<open>some\<close>, \<^verbatim>\<open>findIndex\<close> and \<^verbatim>\<open>filter\<close> of \<^verbatim>\<open>Array.prototype\<close> call
  the callback on the elements from left to right; a callback that throws ends the call
  with its exception. \<^verbatim>\<open>some\<close> and \<^verbatim>\<open>findIndex\<close> stop at the first element
  that passes; \<^verbatim>\<open>findIndex\<close> returns \<open>-1\<close> when none does.
\<close>

fun some :: "('a \<Rightarrow> error + bool) \<Rightarrow> 'a list \<Rightarrow> error + bool" where
  "some f [] = Inr False"
| "some f (x # xs) =
     (case f x of Inl e \<Rightarrow> Inl e | Inr b \<Rightarrow> if b then Inr True else some f xs)"

fun findIndex :: "('a \<Rightarrow> error + bool) \<Rightarrow> 'a list \<Rightarrow> error + int" where
  "findIndex f [] = Inr (- 1)"
| "findIndex f (x # xs) =
     (case f x of
        Inl e \<Rightarrow> Inl e
      | Inr b \<Rightarrow>
          if b then Inr 0
          else (case findIndex f xs of
                  Inl e \<Rightarrow> Inl e
                | Inr i \<Rightarrow> Inr (if i = - 1 then - 1 else i + 1)))"

fun filter_js :: "('a \<Rightarrow> error + bool) \<Rightarrow> 'a list \<Rightarrow> error + 'a list" where
  "filter_js f [] = Inr []"
| "filter_js f (x # xs) =
     (case f x of
        Inl e \<Rightarrow> Inl e
      | Inr b \<Rightarrow>
          (case filter_js f xs of
             Inl e \<Rightarrow> Inl e
           | Inr ys \<Rightarrow> Inr (if b then x # ys else ys)))"

text \<open>
  The callback shared by the three: \<^verbatim>\<open>id1\<close> is the stored ObjectId of the item's
  product, \<^verbatim>\<open>id2\<close> the cast of the request's string.
\<close>

definition sameProduct :: "string \<Rightarrow> CartItem \<Rightarrow> error + bool" where
  "sameProduct productId cartItem =
     (let id1 = oid (product cartItem)
      in case ObjectId productId of
           None \<Rightarrow> Inl ObjectIdError
         | Some id2 \<Rightarrow> Inr (id1 = id2))"

definition otherProduct :: "string \<Rightarrow> CartItem \<Rightarrow> error + bool" where
  "otherProduct productId cartItem =
     (case sameProduct productId cartItem of Inl e \<Rightarrow> Inl e | Inr b \<Rightarrow> Inr (\<not> b))"

subsection \<open>The service\<close>

definition getCartByUser :: "User \<Rightarrow> store \<Rightarrow> error + Cart" where
  "getCartByUser user s =
     (case Cart_findOne (User.email user) s of
        None \<Rightarrow> Inl (ApiError NOT_FOUND (Some ''User does not have a cart''))
      | Some cart \<Rightarrow> Inr cart)"

definition addProductToCart ::
  "(db_write \<Rightarrow> bool) \<Rightarrow> config \<Rightarrow> User \<Rightarrow> string \<Rightarrow> number \<Rightarrow> store \<Rightarrow> (error + Cart) \<times> store" where
  "addProductToCart ok cfg user productId qty s =
     (case (case Cart_findOne (User.email user) s of
              Some cart \<Rightarrow> Inr (cart, s)
            | None \<Rightarrow>
                (let cart = \<lparr>Cart.email = User.email user, cartItems = Some [],
                             paymentOption = default_payment_option cfg\<rparr>
                 in if ok CartCreate then Inr (cart, Cart_create cart s)
                    else Inl (ApiError INTERNAL_SERVER_ERROR (Some ''User cart Creation failed.'')))) of
        Inl e \<Rightarrow> (Inl e, s)
      | Inr (cart, s1) \<Rightarrow>
          (case (case cartItems cart of
                   None \<Rightarrow> Inr False
                 | Some items \<Rightarrow> some (sameProduct productId) items) of
             Inl e \<Rightarrow> (Inl e, s1)
           | Inr isProductAlreadyPresent \<Rightarrow>
               if isProductAlreadyPresent
               then (Inl (ApiError BAD_REQUEST (Some
                 ''Product already in cart. Use the cart sidebar to update or remove product from cart'')), s1)
               else
                 (case Product_findById productId s1 of
                    Inl e \<Rightarrow> (Inl e, s1)
                  | Inr None \<Rightarrow>
                      (Inl (ApiError BAD_REQUEST (Some ''Product doesn't exist in database'')), s1)
                  | Inr (Some productInDB) \<Rightarrow>
                      (case cartItems cart of
                         None \<Rightarrow> (Inl (ApiError INTERNAL_SERVER_ERROR None), s1)
                       | Some items \<Rightarrow>
                           (let cart' = cart\<lparr>cartItems :=
                                  Some (items @ [\<lparr>product = productInDB, quantity = qty\<rparr>])\<rparr>
                            in if ok CartSave then (Inr cart', Cart_save cart' s1)
                               else (Inl StoreError, s1))))))"

definition updateProductInCart ::
  "(db_write \<Rightarrow> bool) \<Rightarrow> User \<Rightarrow> string \<Rightarrow> number \<Rightarrow> store \<Rightarrow> (error + Cart) \<times> store" where
  "updateProductInCart ok user productId qty s =
     (case Cart_findOne (User.email user) s of
        None \<Rightarrow> (Inl (ApiError BAD_REQUEST (Some
          ''User does not have a cart. Use POST to create cart and add a product'')), s)
      | Some cart \<Rightarrow>
          (case Product_findById productId s of
             Inl e \<Rightarrow> (Inl e, s)
           | Inr None \<Rightarrow>
               (Inl (ApiError BAD_REQUEST (Some ''Product doesn't exist in database'')), s)
           | Inr (Some productInDB) \<Rightarrow>
               (case (case cartItems cart of
                        None \<Rightarrow> Inr (- 1)
                      | Some items \<Rightarrow> findIndex (sameProduct productId) items) of
                  Inl e \<Rightarrow> (Inl e, s)
                | Inr productIndex \<Rightarrow>
                    if productIndex = - 1
                    then (Inl (ApiError BAD_REQUEST (Some ''Product not in cart'')), s)
                    else
                      (let cart' = cart\<lparr>cartItems :=
                             map_option (\<lambda>items. items[nat productIndex :=
                               (items ! nat productIndex)\<lparr>quantity := qty\<rparr>]) (cartItems cart)\<rparr>
                       in if ok CartSave then (Inr cart', Cart_save cart' s)
                          else (Inl StoreError, s)))))"

definition deleteProductFromCart ::
  "(db_write \<Rightarrow> bool) \<Rightarrow> User \<Rightarrow> string \<Rightarrow> store \<Rightarrow> (error + unit) \<times> store" where
  "deleteProductFromCart ok user productId s =
     (case Cart_findOne (User.email user) s of
        None \<Rightarrow> (Inl (ApiError BAD_REQUEST (Some ''User does not have a cart'')), s)
      | Some cart \<Rightarrow>
          (case (case cartItems cart of
                   None \<Rightarrow> Inr (- 1)
                 | Some items \<Rightarrow> findIndex (sameProduct productId) items) of
             Inl e \<Rightarrow> (Inl e, s)
           | Inr productIndex \<Rightarrow>
               if productIndex = - 1
               then (Inl (ApiError BAD_REQUEST (Some ''Product not in cart'')), s)
               else
                 (case (case cartItems cart of
                          None \<Rightarrow> Inr []
                        | Some items \<Rightarrow> filter_js (otherProduct productId) items) of
                    Inl e \<Rightarrow> (Inl e, s)
                  | Inr items' \<Rightarrow>
                      (let cart' = cart\<lparr>cartItems := Some items'\<rparr>
                       in if ok CartSave then (Inr (), Cart_save cart' s)
                          else (Inl StoreError, s)))))"

text \<open>
  \<^verbatim>\<open>checkout\<close> changes the \<^verbatim>\<open>user\<close> object it was handed before it saves it, so
  the model returns that object next to the result and the store.
\<close>

definition totalCost :: "CartItem list \<Rightarrow> number" where
  "totalCost items =
     foldl (\<lambda>c item. num_add c (num_mul (cost (product item)) (quantity item))) (Num 0) items"

definition checkout :: "(db_write \<Rightarrow> bool) \<Rightarrow> User \<Rightarrow> store \<Rightarrow> (error + unit) \<times> User \<times> store" where
  "checkout ok user s =
     (case Cart_findOne (User.email user) s of
        None \<Rightarrow> (Inl (ApiError NOT_FOUND (Some ''User does not have a cart'')), user, s)
      | Some cart \<Rightarrow>
          (case cartItems cart of
             None \<Rightarrow> (Inl (ApiError BAD_REQUEST None), user, s)
           | Some items \<Rightarrow>
               if length items = 0 then (Inl (ApiError BAD_REQUEST None), user, s)
               else if \<not> hasSetNonDefaultAddress user then (Inl (ApiError BAD_REQUEST None), user, s)
               else if num_gt (totalCost items) (walletMoney user)
                 then (Inl (ApiError BAD_REQUEST None), user, s)
               else
                 (let user' = user\<lparr>walletMoney := num_sub (walletMoney user) (totalCost items)\<rparr>
                  in if \<not> ok UserSave then (Inl StoreError, user', s)
                     else
                       (let s1 = User_save user' s;
                            cart' = cart\<lparr>cartItems := Some []\<rparr>
                        in if \<not> ok CartSave then (Inl StoreError, user', s1)
                           else (Inr (), user', Cart_save cart' s1)))))"

subsection \<open>Observations and predicates of the specification\<close>

text \<open>Reading a user back from the store, as the calling layer does.\<close>

definition User_findOne :: "string \<Rightarrow> store \<Rightarrow> User option" where
  "User_findOne e s = find (\<lambda>u. User.email u = e) (users s)"

text \<open>The status code of a failure, when it is an \<open>ApiError\<close>.\<close>

fun status_of :: "error + 'a \<Rightarrow> nat option" where
  "status_of (Inl (ApiError st msg)) = Some st"
| "status_of (Inl StoreError) = None"
| "status_of (Inl ObjectIdError) = None"
| "status_of (Inl CastError) = None"
| "status_of (Inr v) = None"

text \<open>A line item is for the product with a given ObjectId; a cart holds such an item.\<close>

definition hasId :: "objectId \<Rightarrow> CartItem \<Rightarrow> bool" where
  "hasId i cartItem = (oid (product cartItem) = i)"

definition inCart :: "objectId \<Rightarrow> Cart \<Rightarrow> bool" where
  "inCart i cart =
     (case cartItems cart of None \<Rightarrow> False | Some items \<Rightarrow> list_ex (hasId i) items)"

text \<open>The first index whose element satisfies a predicate, or \<open>-1\<close>.\<close>

fun first_index :: "('a \<Rightarrow> bool) \<Rightarrow> 'a list \<Rightarrow> int" where
  "first_index P [] = - 1"
| "first_index P (x # xs) =
     (if P x then 0 else (let i = first_index P xs in if i = - 1 then - 1 else i + 1))"

text \<open>The document that \<open>addProductToCart\<close> creates for a user without a cart.\<close>

definition newCart :: "config \<Rightarrow> User \<Rightarrow> Cart" where
  "newCart cfg user = \<lparr>Cart.email = User.email user, cartItems = Some [],
                        paymentOption = default_payment_option cfg\<rparr>"






text \<open>
  The uniqueness invariant of the data model: the item list of a cart names each product
  id at most once.
\<close>

definition cart_inv :: "Cart \<Rightarrow> bool" where
  "cart_inv cart =
     (case cartItems cart of
        None \<Rightarrow> True
      | Some items \<Rightarrow> distinct (map (\<lambda>cartItem. oid (product cartItem)) items))"

definition store_inv :: "store \<Rightarrow> bool" where
  "store_inv s = list_all cart_inv (carts s)"

subsection \<open>Histories of requests\<close>

text \<open>
  The calling layer serves one request after the other; each request comes with the
  answers of the store to its writes, and leaves a store behind whether it fails or not.
\<close>

datatype request =
    Add User string number
  | Update User string number
  | Delete User string
  | Checkout User

fun serve :: "config \<Rightarrow> (db_write \<Rightarrow> bool) \<times> request \<Rightarrow> store \<Rightarrow> store" where
  "serve cfg (ok, Add user productId qty) s = snd (addProductToCart ok cfg user productId qty s)"
| "serve cfg (ok, Update user productId qty) s = snd (updateProductInCart ok user productId qty s)"
| "serve cfg (ok, Delete user productId) s = snd (deleteProductFromCart ok user productId s)"
| "serve cfg (ok, Checkout user) s = snd (snd (checkout ok user s))"

fun serve_all :: "config \<Rightarrow> ((db_write \<Rightarrow> bool) \<times> request) list \<Rightarrow> store \<Rightarrow> store" where
  "serve_all cfg [] s = s"
| "serve_all cfg (r # rs) s = serve_all cfg rs (serve cfg r s)"



subsection \<open>A small shop\<close>

definition shirt :: Product where
  "shirt = \<lparr>oid = 0x5f71c1ca04c69a5874e9fd45, cost = Num 100\<rparr>"

definition mug :: Product where
  "mug = \<lparr>oid = 0x5f71c1ca04c69a5874e9fd46, cost = Num 50\<rparr>"

definition shirt_id :: string where
  "shirt_id = ''5f71c1ca04c69a5874e9fd45''"

definition mug_id :: string where
  "mug_id = ''5f71c1ca04c69a5874e9fd46''"

definition alice :: User where
  "alice = \<lparr>email = ''alice@example.com'', walletMoney = Num 500, nonDefaultAddress = True\<rparr>"

definition bob :: User where
  "bob = \<lparr>email = ''bob@example.com'', walletMoney = Num 40, nonDefaultAddress = True\<rparr>"

definition alice_items :: "CartItem list" where
  "alice_items = [\<lparr>product = shirt, quantity = Num 2\<rparr>, \<lparr>product = mug, quantity = Num 1\<rparr>]"

definition alice_cart :: Cart where
  "alice_cart = \<lparr>Cart.email = ''alice@example.com'', cartItems = Some alice_items,
                  paymentOption = ''PAYMENT_OPTION_DEFAULT''\<rparr>"

text \<open>Carol's cart holds a poster that the shop has stopped selling.\<close>

definition poster :: Product where
  "poster = \<lparr>oid = 0x5f71c1ca04c69a5874e9fd47, cost = Num 30\<rparr>"

definition poster_id :: string where
  "poster_id = ''5f71c1ca04c69a5874e9fd47''"

definition carol :: User where
  "carol = \<lparr>email = ''carol@example.com'', walletMoney = Num 30, nonDefaultAddress = True\<rparr>"

definition carol_cart :: Cart where
  "carol_cart = \<lparr>Cart.email = ''carol@example.com'',
                  cartItems = Some [\<lparr>product = poster, quantity = Num 1\<rparr>],
                  paymentOption = ''PAYMENT_OPTION_DEFAULT''\<rparr>"

definition shop :: store where
  "shop = \<lparr>carts = [alice_cart, carol_cart], products = [shirt, mug],
            users = [alice, bob, carol]\<rparr>"

definition cfg0 :: config where
  "cfg0 = \<lparr>default_payment_option = ''PAYMENT_OPTION_DEFAULT''\<rparr>"

text \<open>Amounts beyond the safe range, on which the arithmetic of the source rounds.\<close>

definition big_items :: "CartItem list" where
  "big_items =
     [\<lparr>product = \<lparr>oid = 1, cost = Num 10000000000000000\<rparr>, quantity = Num 1\<rparr>,
      \<lparr>product = \<lparr>oid = 2, cost = Num 3\<rparr>, quantity = Num 1\<rparr>,
      \<lparr>product = \<lparr>oid = 3, cost = Num 3\<rparr>, quantity = Num 1\<rparr>]"

section \<open>Properties\<close>

subsection \<open>Numbers in the safe range\<close>










text \<open>Beyond the safe range the sum is rounded at each step, as the doubles of the source are.\<close>

lemma totalCost_rounds: "totalCost big_items = Num 10000000000000008"
  by code_simp

lemma product_rounds: "num_mul (Num 9007199254740991) (Num 3) = Num 27021597764222972"
  by code_simp

subsection \<open>Object ids\<close>

text \<open>The cast reads both cases of a hexadecimal digit and refuses a malformed string.\<close>

lemma ObjectId_examples:
  "ObjectId ''5f71c1ca04c69a5874e9fd46'' = Some 0x5f71c1ca04c69a5874e9fd46"
  "ObjectId ''5F71C1CA04C69A5874E9FD46'' = Some 0x5f71c1ca04c69a5874e9fd46"
  "ObjectId ''xyz'' = None"
  by (simp_all add: ObjectId_def is_hex_def hex_value_def)

lemma sameProduct_cast:
  "ObjectId productId = Some i \<Longrightarrow> sameProduct productId = (\<lambda>cartItem. Inr (hasId i cartItem))"
  by (simp add: sameProduct_def hasId_def fun_eq_iff)

lemma otherProduct_cast:
  "ObjectId productId = Some i \<Longrightarrow> otherProduct productId = (\<lambda>cartItem. Inr (\<not> hasId i cartItem))"
  by (simp add: otherProduct_def sameProduct_cast fun_eq_iff)

lemma sameProduct_malformed:
  "ObjectId productId = None \<Longrightarrow> sameProduct productId = (\<lambda>cartItem. Inl ObjectIdError)"
  by (simp add: sameProduct_def fun_eq_iff)

lemma Product_findById_cast:
  "ObjectId productId = Some i \<Longrightarrow>
     Product_findById productId s = Inr (find (\<lambda>p. oid p = i) (products s))"
  by (simp add: Product_findById_def)

lemma Product_findById_wellformed:
  "Product_findById productId s = Inr r \<Longrightarrow> \<exists>i. ObjectId productId = Some i"
  by (auto simp: Product_findById_def split: option.splits)

subsection \<open>Collections\<close>

lemma find_Some_holds: "find P xs = Some x \<Longrightarrow> P x"
  by (induction xs) (auto split: if_splits)

lemma find_Some_list_all: "find P xs = Some x \<Longrightarrow> list_all I xs \<Longrightarrow> I x"
  by (induction xs) (auto split: if_splits)

lemma find_snoc: "find P xs = None \<Longrightarrow> P d \<Longrightarrow> find P (xs @ [d]) = Some d"
  by (induction xs) (auto split: if_splits)

lemma find_save_doc: "same d \<Longrightarrow> find same (save_doc same d xs) = Some d"
  by (induction xs) simp_all

lemma save_doc_found: "find same xs = Some d \<Longrightarrow> save_doc same d xs = xs"
  by (induction xs) (auto split: if_splits)

lemma save_doc_absent: "find same xs = None \<Longrightarrow> save_doc same d xs = xs @ [d]"
  by (induction xs) (auto split: if_splits)

lemma list_all_save_doc: "list_all I xs \<Longrightarrow> I d \<Longrightarrow> list_all I (save_doc same d xs)"
  by (induction xs) simp_all

lemma Cart_findOne_email: "Cart_findOne e s = Some c \<Longrightarrow> Cart.email c = e"
  unfolding Cart_findOne_def by (rule find_Some_holds)

lemma Cart_findOne_save: "Cart_findOne (Cart.email c) (Cart_save c s) = Some c"
  by (simp add: Cart_findOne_def Cart_save_def find_save_doc)

lemma Cart_save_found: "Cart_findOne (Cart.email c) s = Some c \<Longrightarrow> Cart_save c s = s"
  by (simp add: Cart_findOne_def Cart_save_def save_doc_found)

lemma Cart_findOne_User_save [simp]: "Cart_findOne e (User_save u s) = Cart_findOne e s"
  by (simp add: Cart_findOne_def User_save_def)

lemma carts_User_save [simp]: "carts (User_save u s) = carts s"
  by (simp add: User_save_def)


lemma User_findOne_Cart_save [simp]: "User_findOne e (Cart_save c s) = User_findOne e s"
  by (simp add: User_findOne_def Cart_save_def)

lemma products_Cart_create [simp]: "products (Cart_create c s) = products s"
  by (simp add: Cart_create_def)

lemma products_Cart_save [simp]: "products (Cart_save c s) = products s"
  by (simp add: Cart_save_def)

lemma Product_findById_Cart_create [simp]:
  "Product_findById i (Cart_create c s) = Product_findById i s"
  by (simp add: Product_findById_def split: option.splits)

lemma Product_findById_Cart_save [simp]:
  "Product_findById i (Cart_save c s) = Product_findById i s"
  by (simp add: Product_findById_def split: option.splits)

subsection \<open>Arrays\<close>

text \<open>With a callback that does not throw, the three helpers are the pure list functions.\<close>

lemma some_pure: "some (\<lambda>x. Inr (P x)) xs = Inr (list_ex P xs)"
  by (induction xs) simp_all

lemma findIndex_pure: "findIndex (\<lambda>x. Inr (P x)) xs = Inr (first_index P xs)"
  by (induction xs) (simp_all add: Let_def)

lemma filter_js_pure: "filter_js (\<lambda>x. Inr (P x)) xs = Inr (filter P xs)"
  by (induction xs) simp_all

lemma some_throwing: "some (\<lambda>x. Inl e) xs = (if xs = [] then Inr False else Inl e)"
  by (cases xs) simp_all

lemma filter_js_sub: "filter_js f xs = Inr ys \<Longrightarrow> ys = filter (\<lambda>x. f x = Inr True) xs"
  by (induction xs arbitrary: ys) (auto split: sum.splits if_splits)

lemma first_index_range: "- 1 \<le> first_index P xs \<and> first_index P xs < int (length xs)"
  by (induction xs) (auto simp: Let_def)

lemma first_index_none: "first_index P xs = - 1 \<longleftrightarrow> \<not> list_ex P xs"
proof (induction xs)
  case Nil
  show ?case by simp
next
  case (Cons x xs)
  have "- 1 \<le> first_index P xs" using first_index_range [of P xs] by simp
  then have "first_index P xs + 1 \<noteq> - 1" by arith
  with Cons show ?case by (simp add: Let_def)
qed

lemma first_index_first:
  "first_index P xs \<noteq> - 1 \<Longrightarrow>
     P (xs ! nat (first_index P xs)) \<and> (\<forall>j < nat (first_index P xs). \<not> P (xs ! j))"
proof (induction xs)
  case Nil
  then show ?case by simp
next
  case (Cons x xs)
  show ?case
  proof (cases "P x")
    case True
    then show ?thesis by simp
  next
    case False
    have ge: "- 1 \<le> first_index P xs" using first_index_range [of P xs] by simp
    from False Cons.prems have ne: "first_index P xs \<noteq> - 1"
      by (auto simp: Let_def split: if_splits)
    with ge have nn: "0 \<le> first_index P xs" by arith
    from False ne have eq: "first_index P (x # xs) = first_index P xs + 1" by (simp add: Let_def)
    from nn have suc: "nat (first_index P xs + 1) = Suc (nat (first_index P xs))" by arith
    from Cons.IH [OF ne] False show ?thesis
      unfolding eq suc by (auto simp: less_Suc_eq_0_disj)
  qed
qed

lemma first_index_cong: "map P xs = map P ys \<Longrightarrow> first_index P xs = first_index P ys"
proof (induction xs arbitrary: ys)
  case Nil
  then show ?case by simp
next
  case (Cons x xs)
  then obtain y ys' where ys: "ys = y # ys'" by (cases ys) auto
  with Cons.prems have "P x = P y" and "map P xs = map P ys'" by simp_all
  with Cons.IH [of ys'] ys show ?case by simp
qed

lemma map_update_same: "(\<And>x. g (f x) = g x) \<Longrightarrow> map g (xs[i := f (xs ! i)]) = map g xs"
  by (induction xs arbitrary: i) (auto split: nat.splits)

lemma hasId_quantity [simp]: "hasId i (item\<lparr>quantity := qty\<rparr>) = hasId i item"
  by (simp add: hasId_def)

lemma first_index_set_quantity:
  "first_index (hasId i) (items[k := (items ! k)\<lparr>quantity := qty\<rparr>]) = first_index (hasId i) items"
proof (rule first_index_cong)
  show "map (hasId i) (items[k := (items ! k)\<lparr>quantity := qty\<rparr>]) = map (hasId i) items"
    by (rule map_update_same [where f = "\<lambda>item. item\<lparr>quantity := qty\<rparr>"]) simp
qed

lemma filter_same_snoc:
  "\<not> list_ex P xs \<Longrightarrow> P x \<Longrightarrow> length (filter P (xs @ [x])) = 1"
  by (induction xs) simp_all

subsection \<open>The uniqueness invariant on documents and collections\<close>

lemma store_inv_Cart_save: "store_inv s \<Longrightarrow> cart_inv c \<Longrightarrow> store_inv (Cart_save c s)"
  by (simp add: store_inv_def Cart_save_def list_all_save_doc)

lemma store_inv_Cart_create: "store_inv s \<Longrightarrow> cart_inv c \<Longrightarrow> store_inv (Cart_create c s)"
  by (simp add: store_inv_def Cart_create_def)

lemma store_inv_User_save [simp]: "store_inv (User_save u s) = store_inv s"
  by (simp add: store_inv_def)

lemma store_inv_found: "store_inv s \<Longrightarrow> Cart_findOne e s = Some c \<Longrightarrow> cart_inv c"
  unfolding store_inv_def Cart_findOne_def by (rule find_Some_list_all)

lemma cart_inv_newCart: "cart_inv (newCart cfg user)"
  by (simp add: cart_inv_def newCart_def)

lemma cart_inv_push:
  assumes "cart_inv cart" and "cartItems cart = Some items"
    and "\<not> list_ex (hasId i) items" and "oid p = i"
  shows "cart_inv (cart\<lparr>cartItems := Some (items @ [\<lparr>product = p, quantity = qty\<rparr>])\<rparr>)"
  using assms by (auto simp: cart_inv_def list_ex_iff hasId_def)

lemma cart_inv_set_quantity:
  assumes "cart_inv cart" and "cartItems cart = Some items"
  shows "cart_inv (cart\<lparr>cartItems := Some (items[k := (items ! k)\<lparr>quantity := qty\<rparr>])\<rparr>)"
proof -
  have "map (\<lambda>cartItem. oid (product cartItem)) (items[k := (items ! k)\<lparr>quantity := qty\<rparr>])
          = map (\<lambda>cartItem. oid (product cartItem)) items"
    by (rule map_update_same [where f = "\<lambda>item. item\<lparr>quantity := qty\<rparr>"]) simp
  with assms show ?thesis by (simp add: cart_inv_def)
qed

lemma cart_inv_filter:
  assumes "cart_inv cart" and "cartItems cart = Some items"
  shows "cart_inv (cart\<lparr>cartItems := Some (filter P items)\<rparr>)"
  using assms by (simp add: cart_inv_def distinct_map_filter)

subsection \<open>Running the example\<close>

lemmas example_defs = shirt_def mug_def poster_def shirt_id_def mug_id_def poster_id_def
  alice_def bob_def carol_def alice_items_def alice_cart_def carol_cart_def
  shop_def cfg0_def Cart_findOne_def User_findOne_def Product_findById_def
  hasSetNonDefaultAddress_def all_ok_def ObjectId_def is_hex_def hex_value_def

subsection \<open>Checkout\<close>










subsection \<open>A user without a cart\<close>

text \<open>
  C2, as the code has it. For a user with no persisted cart, \<open>getCartByUser\<close> and
  \<open>checkout\<close> fail with status 404, \<open>updateProductInCart\<close> and
  \<open>deleteProductFromCart\<close> fail with status 400, and none of them changes the store.
\<close>

theorem no_cart_status:
  assumes "Cart_findOne (User.email user) s = None"
  shows "getCartByUser user s = Inl (ApiError 404 (Some ''User does not have a cart''))
       \<and> checkout ok user s = (Inl (ApiError 404 (Some ''User does not have a cart'')), user, s)
       \<and> updateProductInCart ok user productId qty s = (Inl (ApiError 400 (Some
            ''User does not have a cart. Use POST to create cart and add a product'')), s)
       \<and> deleteProductFromCart ok user productId s
            = (Inl (ApiError 400 (Some ''User does not have a cart'')), s)"
  using assms
  by (simp add: getCartByUser_def checkout_def updateProductInCart_def deleteProductFromCart_def
      NOT_FOUND_def BAD_REQUEST_def)

theorem no_cart_status_witness:
  "getCartByUser bob shop = Inl (ApiError 404 (Some ''User does not have a cart''))
       \<and> checkout all_ok bob shop = (Inl (ApiError 404 (Some ''User does not have a cart'')), bob, shop)
       \<and> updateProductInCart all_ok bob mug_id (Num 3) shop = (Inl (ApiError 400 (Some
            ''User does not have a cart. Use POST to create cart and add a product'')), shop)
       \<and> deleteProductFromCart all_ok bob mug_id shop
            = (Inl (ApiError 400 (Some ''User does not have a cart'')), shop)"
  using no_cart_status [of bob shop all_ok mug_id "Num 3"]
  by (simp add: alice_def bob_def carol_def alice_cart_def carol_cart_def shop_def Cart_findOne_def)

text \<open>Bob has no cart, and his checkout fails with 404, not with 400.\<close>

theorem checkout_no_cart_counterexample:
  "Cart_findOne (User.email bob) shop = None
     \<and> status_of (fst (checkout all_ok bob shop)) = Some 404
     \<and> status_of (fst (checkout all_ok bob shop)) \<noteq> Some 400"
  by (simp add: checkout_def alice_def bob_def carol_def alice_cart_def carol_cart_def shop_def
      Cart_findOne_def NOT_FOUND_def)

subsection \<open>Adding a product\<close>

text \<open>With a well-formed product id, the casts succeed and the call is a chain of guards.\<close>

lemma add_cast:
  assumes "ObjectId productId = Some i"
  shows "addProductToCart ok cfg user productId qty s =
     (case (case Cart_findOne (User.email user) s of
              Some cart \<Rightarrow> Inr (cart, s)
            | None \<Rightarrow>
                if ok CartCreate then Inr (newCart cfg user, Cart_create (newCart cfg user) s)
                else Inl (ApiError 500 (Some ''User cart Creation failed.''))) of
        Inl e \<Rightarrow> (Inl e, s)
      | Inr (cart, s1) \<Rightarrow>
          if inCart i cart
          then (Inl (ApiError 400 (Some
            ''Product already in cart. Use the cart sidebar to update or remove product from cart'')), s1)
          else
            (case find (\<lambda>p. oid p = i) (products s) of
               None \<Rightarrow> (Inl (ApiError 400 (Some ''Product doesn't exist in database'')), s1)
             | Some productInDB \<Rightarrow>
                 (case cartItems cart of
                    None \<Rightarrow> (Inl (ApiError 500 None), s1)
                  | Some items \<Rightarrow>
                      if ok CartSave
                      then (Inr (cart\<lparr>cartItems :=
                                   Some (items @ [\<lparr>product = productInDB, quantity = qty\<rparr>])\<rparr>),
                            Cart_save (cart\<lparr>cartItems :=
                                   Some (items @ [\<lparr>product = productInDB, quantity = qty\<rparr>])\<rparr>) s1)
                      else (Inl StoreError, s1))))"
proof (cases "Cart_findOne (User.email user) s")
  case None
  then show ?thesis
    by (simp add: addProductToCart_def Let_def newCart_def inCart_def
        Product_findById_cast [OF assms] BAD_REQUEST_def INTERNAL_SERVER_ERROR_def
        split: option.splits)
next
  case (Some cart)
  then show ?thesis
    by (simp add: addProductToCart_def Let_def inCart_def sameProduct_cast [OF assms] some_pure
        Product_findById_cast [OF assms] BAD_REQUEST_def INTERNAL_SERVER_ERROR_def
        split: option.splits)
qed

text \<open>A malformed id makes the call throw; the store keeps at most the cart just created.\<close>

lemma add_malformed:
  assumes "ObjectId productId = None"
  shows "snd (addProductToCart ok cfg user productId qty s) =
     (case Cart_findOne (User.email user) s of
        Some cart \<Rightarrow> s
      | None \<Rightarrow> if ok CartCreate then Cart_create (newCart cfg user) s else s)"
  by (simp add: addProductToCart_def Let_def newCart_def sameProduct_malformed [OF assms]
      some_throwing Product_findById_def assms split: option.splits)

lemma add_present:
  assumes "Cart_findOne (User.email user) s = Some cart"
    and "ObjectId productId = Some i"
    and "inCart i cart"
  shows "addProductToCart ok cfg user productId qty s =
           (Inl (ApiError 400 (Some
              ''Product already in cart. Use the cart sidebar to update or remove product from cart'')), s)"
  using assms(1,3) by (simp add: add_cast [OF assms(2)])

lemma add_success_shape:
  assumes "addProductToCart ok cfg user productId qty s = (Inr cart1, s1)"
  shows "\<exists>i cart0 items p.
           ObjectId productId = Some i
         \<and> (Cart_findOne (User.email user) s = Some cart0
              \<or> Cart_findOne (User.email user) s = None \<and> cart0 = newCart cfg user)
         \<and> cartItems cart0 = Some items
         \<and> \<not> list_ex (hasId i) items
         \<and> find (\<lambda>p. oid p = i) (products s) = Some p
         \<and> cart1 = cart0\<lparr>cartItems := Some (items @ [\<lparr>product = p, quantity = qty\<rparr>])\<rparr>
         \<and> s1 = Cart_save cart1 (case Cart_findOne (User.email user) s of
                                     Some c \<Rightarrow> s | None \<Rightarrow> Cart_create cart0 s)"
proof (cases "ObjectId productId")
  case None
  have "fst (addProductToCart ok cfg user productId qty s) \<noteq> Inr cart1"
    by (simp add: addProductToCart_def Let_def sameProduct_malformed [OF None]
        some_throwing Product_findById_def None split: option.splits)
  with assms show ?thesis by simp
next
  case (Some i)
  from assms show ?thesis
    unfolding add_cast [OF Some]
    by (auto simp: inCart_def Some split: option.splits if_splits)
qed

text \<open>
  Bob has no cart and asks for a product the shop does not have: the call fails with 400,
  and the store now holds an empty cart for him.
\<close>

theorem add_missing_product_counterexample:
  "Product_findById ''000000000000000000000000'' shop = Inr None
     \<and> Cart_findOne (User.email bob) shop = None
     \<and> status_of (fst (addProductToCart all_ok cfg0 bob ''000000000000000000000000'' (Num 1) shop))
         = Some 400
     \<and> Cart_findOne (User.email bob)
          (snd (addProductToCart all_ok cfg0 bob ''000000000000000000000000'' (Num 1) shop))
        = Some \<lparr>Cart.email = ''bob@example.com'', cartItems = Some [],
                 paymentOption = ''PAYMENT_OPTION_DEFAULT''\<rparr>"
  by (simp add: addProductToCart_def example_defs BAD_REQUEST_def Cart_create_def Let_def)

text \<open>
  C4, as the code has it. When the product id is well formed, resolves to no product of
  the store and is not in the user's cart, and the store accepts the creation of a cart
  where the user has none, \<open>addProductToCart\<close> fails with status 400 and adds no cart
  item. A user who had a cart finds the store unchanged; for a user who had none, the
  store has gained the empty cart created at the start of the call, and nothing else.
\<close>

theorem add_missing_product:
  assumes "ObjectId productId = Some i"
    and "Product_findById productId s = Inr None"
    and "\<forall>cart. Cart_findOne (User.email user) s = Some cart \<longrightarrow> \<not> inCart i cart"
    and "Cart_findOne (User.email user) s = None \<longrightarrow> ok CartCreate"
  shows "addProductToCart ok cfg user productId qty s =
           (Inl (ApiError 400 (Some ''Product doesn't exist in database'')),
            case Cart_findOne (User.email user) s of
              Some cart \<Rightarrow> s
            | None \<Rightarrow> s\<lparr>carts := carts s @ [newCart cfg user]\<rparr>)"
proof -
  from assms(1,2) have absent: "find (\<lambda>p. oid p = i) (products s) = None"
    by (simp add: Product_findById_cast)
  show ?thesis
  proof (cases "Cart_findOne (User.email user) s")
    case None
    with assms(4) absent show ?thesis
      by (simp add: add_cast [OF assms(1)] inCart_def newCart_def Cart_create_def)
  next
    case (Some cart)
    with assms(3) have "\<not> inCart i cart" by simp
    with Some absent show ?thesis
      by (simp add: add_cast [OF assms(1)])
  qed
qed

theorem add_missing_product_witness:
  "addProductToCart all_ok cfg0 bob ''000000000000000000000000'' (Num 1) shop =
     (Inl (ApiError 400 (Some ''Product doesn't exist in database'')),
      shop\<lparr>carts := [alice_cart, carol_cart, \<lparr>Cart.email = ''bob@example.com'', cartItems = Some [],
                                   paymentOption = ''PAYMENT_OPTION_DEFAULT''\<rparr>]\<rparr>)
   \<and> addProductToCart all_ok cfg0 alice ''000000000000000000000000'' (Num 1) shop =
     (Inl (ApiError 400 (Some ''Product doesn't exist in database'')), shop)"
  using add_missing_product [of "''000000000000000000000000''" 0 shop bob all_ok cfg0 "Num 1"]
    add_missing_product [of "''000000000000000000000000''" 0 shop alice all_ok cfg0 "Num 1"]
  by (simp add: example_defs inCart_def hasId_def newCart_def)

text \<open>
  C5. When the user's cart holds exactly one line item for the product id,
  \<open>addProductToCart\<close> for that id fails with status 400 and leaves the store as it is,
  so the cart still holds exactly one such item. In particular, after a call that added
  the product, a second call for the same user and product id (whatever its quantity)
  fails with status 400 and changes nothing, and the cart read back from the store is the
  one the first call returned, with exactly one line item for that product id.
\<close>

theorem add_twice_rejected:
  "(Cart_findOne (User.email user) s = Some cart \<and> cartItems cart = Some items
      \<and> ObjectId productId = Some i
      \<and> length (filter (hasId i) items) = 1
    \<longrightarrow> addProductToCart ok cfg user productId qty s =
          (Inl (ApiError 400 (Some
             ''Product already in cart. Use the cart sidebar to update or remove product from cart'')), s))
   \<and> (addProductToCart ok cfg user productId qty s = (Inr cart1, s1)
    \<longrightarrow> addProductToCart ok2 cfg2 user productId qty2 s1 =
          (Inl (ApiError 400 (Some
             ''Product already in cart. Use the cart sidebar to update or remove product from cart'')), s1)
        \<and> Cart_findOne (User.email user) s1 = Some cart1
        \<and> (\<exists>j items1. ObjectId productId = Some j \<and> cartItems cart1 = Some items1
              \<and> length (filter (hasId j) items1) = 1))"
proof (intro conjI impI)
  assume a: "Cart_findOne (User.email user) s = Some cart \<and> cartItems cart = Some items
      \<and> ObjectId productId = Some i \<and> length (filter (hasId i) items) = 1"
  then have "filter (hasId i) items \<noteq> []" by auto
  then have "list_ex (hasId i) items"
    by (simp add: filter_empty_conv list_ex_iff)
  with a have "inCart i cart" by (simp add: inCart_def)
  with a show "addProductToCart ok cfg user productId qty s =
          (Inl (ApiError 400 (Some
             ''Product already in cart. Use the cart sidebar to update or remove product from cart'')), s)"
    by (simp add: add_present)
next
  assume first: "addProductToCart ok cfg user productId qty s = (Inr cart1, s1)"
  from add_success_shape [OF first] obtain j cart0 items0 p where
    cast: "ObjectId productId = Some j"
    and origin: "Cart_findOne (User.email user) s = Some cart0
       \<or> Cart_findOne (User.email user) s = None \<and> cart0 = newCart cfg user"
    and its: "cartItems cart0 = Some items0"
    and fresh: "\<not> list_ex (hasId j) items0"
    and prod: "find (\<lambda>p. oid p = j) (products s) = Some p"
    and c1: "cart1 = cart0\<lparr>cartItems := Some (items0 @ [\<lparr>product = p, quantity = qty\<rparr>])\<rparr>"
    and s1: "s1 = Cart_save cart1 (case Cart_findOne (User.email user) s of
                                     Some c \<Rightarrow> s | None \<Rightarrow> Cart_create cart0 s)"
    by blast
  from find_Some_holds [OF prod] have new: "hasId j \<lparr>product = p, quantity = qty\<rparr>"
    by (simp add: hasId_def)
  from origin have e0: "Cart.email cart0 = User.email user"
    by (auto simp: newCart_def dest: Cart_findOne_email)
  with c1 have e1: "Cart.email cart1 = User.email user" by simp
  show found: "Cart_findOne (User.email user) s1 = Some cart1"
    unfolding s1 using Cart_findOne_save [of cart1] e1 by simp
  have items1: "cartItems cart1 = Some (items0 @ [\<lparr>product = p, quantity = qty\<rparr>])"
    using c1 by simp
  have one: "length (filter (hasId j) (items0 @ [\<lparr>product = p, quantity = qty\<rparr>])) = 1"
    using fresh new by (rule filter_same_snoc)
  from cast items1 one show "\<exists>j items1. ObjectId productId = Some j
      \<and> cartItems cart1 = Some items1 \<and> length (filter (hasId j) items1) = 1" by blast
  have "inCart j cart1"
    using new items1 by (simp add: inCart_def)
  with found cast show "addProductToCart ok2 cfg2 user productId qty2 s1 =
          (Inl (ApiError 400 (Some
             ''Product already in cart. Use the cart sidebar to update or remove product from cart'')), s1)"
    by (rule add_present)
qed

theorem add_twice_rejected_witness:
  "addProductToCart all_ok cfg0 alice mug_id (Num 5) shop =
     (Inl (ApiError 400 (Some
        ''Product already in cart. Use the cart sidebar to update or remove product from cart'')), shop)
   \<and> fst (addProductToCart all_ok cfg0 bob mug_id (Num 2) shop)
       = Inr \<lparr>Cart.email = ''bob@example.com'', cartItems = Some [\<lparr>product = mug, quantity = Num 2\<rparr>],
               paymentOption = ''PAYMENT_OPTION_DEFAULT''\<rparr>
   \<and> addProductToCart all_ok cfg0 bob mug_id (Num 7)
         (snd (addProductToCart all_ok cfg0 bob mug_id (Num 2) shop))
       = (Inl (ApiError 400 (Some
        ''Product already in cart. Use the cart sidebar to update or remove product from cart'')),
          snd (addProductToCart all_ok cfg0 bob mug_id (Num 2) shop))
   \<and> Cart_findOne (User.email bob) (snd (addProductToCart all_ok cfg0 bob mug_id (Num 2) shop))
       = Some \<lparr>Cart.email = ''bob@example.com'', cartItems = Some [\<lparr>product = mug, quantity = Num 2\<rparr>],
               paymentOption = ''PAYMENT_OPTION_DEFAULT''\<rparr>"
proof -
  have first: "fst (addProductToCart all_ok cfg0 bob mug_id (Num 2) shop) =
     Inr \<lparr>Cart.email = ''bob@example.com'', cartItems = Some [\<lparr>product = mug, quantity = Num 2\<rparr>],
               paymentOption = ''PAYMENT_OPTION_DEFAULT''\<rparr>"
    by (simp add: addProductToCart_def example_defs Let_def Cart_create_def Cart_save_def)
  then have run: "addProductToCart all_ok cfg0 bob mug_id (Num 2) shop =
     (Inr \<lparr>Cart.email = ''bob@example.com'', cartItems = Some [\<lparr>product = mug, quantity = Num 2\<rparr>],
               paymentOption = ''PAYMENT_OPTION_DEFAULT''\<rparr>,
      snd (addProductToCart all_ok cfg0 bob mug_id (Num 2) shop))"
    by (metis prod.collapse)
  have one: "Cart_findOne (User.email alice) shop = Some alice_cart
      \<and> cartItems alice_cart = Some alice_items
      \<and> ObjectId mug_id = Some (oid mug)
      \<and> length (filter (hasId (oid mug)) alice_items) = 1"
    by (simp add: example_defs hasId_def)
  from add_twice_rejected [of alice shop alice_cart alice_items mug_id "oid mug" all_ok cfg0 "Num 5"]
  have a: "addProductToCart all_ok cfg0 alice mug_id (Num 5) shop =
     (Inl (ApiError 400 (Some
        ''Product already in cart. Use the cart sidebar to update or remove product from cart'')), shop)"
    using one by blast
  from add_twice_rejected [of bob shop _ _ mug_id _ all_ok cfg0 "Num 2" _ _ all_ok cfg0 "Num 7"] run
  have b: "addProductToCart all_ok cfg0 bob mug_id (Num 7)
         (snd (addProductToCart all_ok cfg0 bob mug_id (Num 2) shop))
       = (Inl (ApiError 400 (Some
        ''Product already in cart. Use the cart sidebar to update or remove product from cart'')),
          snd (addProductToCart all_ok cfg0 bob mug_id (Num 2) shop))
      \<and> Cart_findOne (User.email bob) (snd (addProductToCart all_ok cfg0 bob mug_id (Num 2) shop))
       = Some \<lparr>Cart.email = ''bob@example.com'', cartItems = Some [\<lparr>product = mug, quantity = Num 2\<rparr>],
               paymentOption = ''PAYMENT_OPTION_DEFAULT''\<rparr>"
    by blast
  from a b first show ?thesis by blast
qed

text \<open>
  C6. The duplicate check comes before the product lookup: when the user's cart holds a
  line item for the product id, \<open>addProductToCart\<close> fails with the 400 error
  "Product already in cart ...", whatever the product collection holds, so also when the
  id resolves to no product there.
\<close>

theorem add_duplicate_checked_first:
  assumes "Cart_findOne (User.email user) s = Some cart"
    and "ObjectId productId = Some i"
    and "inCart i cart"
  shows "addProductToCart ok cfg user productId qty s =
           (Inl (ApiError 400 (Some
              ''Product already in cart. Use the cart sidebar to update or remove product from cart'')), s)"
  using assms(1,3)
  by (simp add: addProductToCart_def inCart_def sameProduct_cast [OF assms(2)] some_pure
      BAD_REQUEST_def split: option.splits)

text \<open>The shop no longer has the poster that is in Carol's cart.\<close>

theorem add_duplicate_checked_first_witness:
  "Product_findById poster_id shop = Inr None
   \<and> addProductToCart all_ok cfg0 carol poster_id (Num 1) shop =
       (Inl (ApiError 400 (Some
          ''Product already in cart. Use the cart sidebar to update or remove product from cart'')), shop)"
  using add_duplicate_checked_first [of carol shop carol_cart poster_id "oid poster" all_ok cfg0 "Num 1"]
  by (simp add: example_defs inCart_def hasId_def)

subsection \<open>Updating a quantity\<close>

lemma update_run:
  assumes "Cart_findOne (User.email user) s = Some cart"
    and "cartItems cart = Some items"
    and "ObjectId productId = Some i"
    and "list_ex (hasId i) items"
    and "Product_findById productId s = Inr (Some p)"
    and "ok CartSave"
  shows "updateProductInCart ok user productId qty s =
           (Inr (cart\<lparr>cartItems := Some (items[nat (first_index (hasId i) items) :=
                     (items ! nat (first_index (hasId i) items))\<lparr>quantity := qty\<rparr>])\<rparr>),
            Cart_save (cart\<lparr>cartItems := Some (items[nat (first_index (hasId i) items) :=
                     (items ! nat (first_index (hasId i) items))\<lparr>quantity := qty\<rparr>])\<rparr>) s)"
  using assms(1,2,4,5,6)
  by (simp add: updateProductInCart_def Let_def sameProduct_cast [OF assms(3)] findIndex_pure
      first_index_none)

text \<open>
  C7. When the user's cart holds a line item for the product id, the product exists in
  the store and the store accepts the write, \<open>updateProductInCart\<close> returns the cart
  in which the first line item for that product id (the only one under the uniqueness
  invariant) has exactly the new quantity and every other item is as before, and the
  store reads back that cart. The operation is idempotent: a second call with the same
  arguments returns the same cart and leaves the same store.
\<close>

theorem update_sets_quantity:
  assumes "Cart_findOne (User.email user) s = Some cart"
    and "cartItems cart = Some items"
    and "ObjectId productId = Some i"
    and "list_ex (hasId i) items"
    and "Product_findById productId s = Inr (Some p)"
    and "ok CartSave"
  shows "\<exists>k cart' s'.
           k < length items \<and> hasId i (items ! k)
         \<and> (\<forall>j<k. \<not> hasId i (items ! j))
         \<and> cart' = cart\<lparr>cartItems := Some (items[k := (items ! k)\<lparr>quantity := qty\<rparr>])\<rparr>
         \<and> updateProductInCart ok user productId qty s = (Inr cart', s')
         \<and> Cart_findOne (User.email user) s' = Some cart'
         \<and> updateProductInCart ok user productId qty s' = (Inr cart', s')"
proof -
  let ?n = "first_index (hasId i) items"
  let ?k = "nat ?n"
  let ?items' = "items[?k := (items ! ?k)\<lparr>quantity := qty\<rparr>]"
  let ?cart' = "cart\<lparr>cartItems := Some ?items'\<rparr>"
  let ?s' = "Cart_save ?cart' s"
  from assms(4) have ne: "?n \<noteq> - 1" by (simp add: first_index_none)
  have "- 1 \<le> ?n" and lt: "?n < int (length items)"
    using first_index_range [of "hasId i" items] by simp_all
  with ne have k: "?k < length items" by arith
  from first_index_first [OF ne]
  have hit: "hasId i (items ! ?k)"
    and first: "\<forall>j<?k. \<not> hasId i (items ! j)" by simp_all
  have e: "Cart.email ?cart' = User.email user"
    using Cart_findOne_email [OF assms(1)] by simp
  have once: "updateProductInCart ok user productId qty s = (Inr ?cart', ?s')"
    using assms by (rule update_run)
  have found: "Cart_findOne (User.email user) ?s' = Some ?cart'"
    using Cart_findOne_save [of ?cart' s] e by simp
  have n': "first_index (hasId i) ?items' = ?n"
    by (rule first_index_set_quantity)
  have again_items: "?items'[?k := (?items' ! ?k)\<lparr>quantity := qty\<rparr>] = ?items'"
    using k by simp
  have still: "list_ex (hasId i) ?items'"
    using ne n' first_index_none [of "hasId i" ?items'] by simp
  have "updateProductInCart ok user productId qty ?s' =
          (Inr (?cart'\<lparr>cartItems := Some (?items'[nat (first_index (hasId i) ?items') :=
              (?items' ! nat (first_index (hasId i) ?items'))\<lparr>quantity := qty\<rparr>])\<rparr>),
           Cart_save (?cart'\<lparr>cartItems := Some (?items'[nat (first_index (hasId i) ?items') :=
              (?items' ! nat (first_index (hasId i) ?items'))\<lparr>quantity := qty\<rparr>])\<rparr>) ?s')"
  proof (rule update_run [of user ?s' ?cart' ?items' productId i p ok qty])
    show "Cart_findOne (User.email user) ?s' = Some ?cart'" by (rule found)
    show "cartItems ?cart' = Some ?items'" by simp
    show "ObjectId productId = Some i" by (rule assms(3))
    show "list_ex (hasId i) ?items'" by (rule still)
    show "Product_findById productId ?s' = Inr (Some p)" using assms(5) by simp
    show "ok CartSave" by (rule assms(6))
  qed
  then have "updateProductInCart ok user productId qty ?s' = (Inr ?cart', Cart_save ?cart' ?s')"
    unfolding n' again_items by simp
  moreover have "Cart_save ?cart' ?s' = ?s'"
    using found e Cart_save_found [of ?cart' ?s'] by simp
  ultimately have twice: "updateProductInCart ok user productId qty ?s' = (Inr ?cart', ?s')"
    by simp
  from k hit first once found twice show ?thesis by blast
qed

theorem update_sets_quantity_witness:
  "updateProductInCart all_ok alice mug_id (Num 4) shop =
     (Inr (alice_cart\<lparr>cartItems :=
             Some [\<lparr>product = shirt, quantity = Num 2\<rparr>, \<lparr>product = mug, quantity = Num 4\<rparr>]\<rparr>),
      shop\<lparr>carts := [alice_cart\<lparr>cartItems :=
             Some [\<lparr>product = shirt, quantity = Num 2\<rparr>, \<lparr>product = mug, quantity = Num 4\<rparr>]\<rparr>,
             carol_cart]\<rparr>)
   \<and> updateProductInCart all_ok alice mug_id (Num 4)
        (snd (updateProductInCart all_ok alice mug_id (Num 4) shop))
      = updateProductInCart all_ok alice mug_id (Num 4) shop"
proof -
  have run: "updateProductInCart all_ok alice mug_id (Num 4) shop =
     (Inr (alice_cart\<lparr>cartItems :=
             Some [\<lparr>product = shirt, quantity = Num 2\<rparr>, \<lparr>product = mug, quantity = Num 4\<rparr>]\<rparr>),
      shop\<lparr>carts := [alice_cart\<lparr>cartItems :=
             Some [\<lparr>product = shirt, quantity = Num 2\<rparr>, \<lparr>product = mug, quantity = Num 4\<rparr>]\<rparr>,
             carol_cart]\<rparr>)"
    by (simp add: updateProductInCart_def example_defs sameProduct_def Let_def Cart_save_def)
  have "Cart_findOne (User.email alice) shop = Some alice_cart"
    and "cartItems alice_cart = Some alice_items"
    and "ObjectId mug_id = Some (oid mug)"
    and "list_ex (hasId (oid mug)) alice_items"
    and "Product_findById mug_id shop = Inr (Some mug)"
    and "all_ok CartSave"
    by (simp_all add: example_defs hasId_def)
  with update_sets_quantity
    [of alice shop alice_cart alice_items mug_id "oid mug" mug all_ok "Num 4"]
  obtain cart' s' where
    "updateProductInCart all_ok alice mug_id (Num 4) shop = (Inr cart', s')"
    "updateProductInCart all_ok alice mug_id (Num 4) s' = (Inr cart', s')"
    by blast
  then have "updateProductInCart all_ok alice mug_id (Num 4)
        (snd (updateProductInCart all_ok alice mug_id (Num 4) shop))
      = updateProductInCart all_ok alice mug_id (Num 4) shop" by simp
  with run show ?thesis by blast
qed

subsection \<open>The uniqueness invariant\<close>

lemma add_preserves:
  assumes "store_inv s"
  shows "store_inv (snd (addProductToCart ok cfg user productId qty s))"
proof (cases "ObjectId productId")
  case None
  from assms have "store_inv (Cart_create (newCart cfg user) s)"
    using cart_inv_newCart by (rule store_inv_Cart_create)
  with assms show ?thesis
    by (simp add: add_malformed [OF None] split: option.splits)
next
  case (Some i)
  show ?thesis
  proof (cases "Cart_findOne (User.email user) s")
    case None
    have new: "store_inv (Cart_create (newCart cfg user) s)"
      using assms cart_inv_newCart by (rule store_inv_Cart_create)
    have empty: "cartItems (newCart cfg user) = Some []"
      by (simp add: newCart_def)
    have "cart_inv ((newCart cfg user)\<lparr>cartItems := Some ([] @ [\<lparr>product = p, quantity = qty\<rparr>])\<rparr>)"
      if "find (\<lambda>p. oid p = i) (products s) = Some p" for p
      using cart_inv_newCart empty
      by (rule cart_inv_push) (simp_all add: find_Some_holds [OF that])
    with None assms new empty show ?thesis
      by (auto simp: add_cast [OF Some] intro!: store_inv_Cart_save split: option.splits)
  next
    case found: (Some cart)
    with assms have inv: "cart_inv cart" by (simp add: store_inv_found)
    have "cart_inv (cart\<lparr>cartItems := Some (items @ [\<lparr>product = p, quantity = qty\<rparr>])\<rparr>)"
      if "find (\<lambda>p. oid p = i) (products s) = Some p" and "cartItems cart = Some items"
        and "\<not> inCart i cart" for p items
    proof (rule cart_inv_push [OF inv that(2)])
      show "\<not> list_ex (hasId i) items" using that(2,3) by (simp add: inCart_def)
      show "oid p = i" using that(1) by (rule find_Some_holds)
    qed
    with found assms show ?thesis
      by (auto simp: add_cast [OF Some] intro!: store_inv_Cart_save split: option.splits)
  qed
qed

lemma update_preserves:
  assumes "store_inv s"
  shows "store_inv (snd (updateProductInCart ok user productId qty s))"
proof (cases "Cart_findOne (User.email user) s")
  case None
  with assms show ?thesis by (simp add: updateProductInCart_def)
next
  case (Some cart)
  with assms have inv: "cart_inv cart" by (simp add: store_inv_found)
  show ?thesis
  proof (cases "cartItems cart")
    case None
    with Some assms show ?thesis
      by (simp add: updateProductInCart_def split: option.splits sum.splits)
  next
    case items: (Some items)
    have "cart_inv (cart\<lparr>cartItems := Some (items[k := (items ! k)\<lparr>quantity := qty\<rparr>])\<rparr>)" for k
      using inv items by (rule cart_inv_set_quantity)
    with Some items assms show ?thesis
      by (simp add: updateProductInCart_def Let_def store_inv_Cart_save
          split: option.splits sum.splits)
  qed
qed

lemma delete_preserves:
  assumes "store_inv s"
  shows "store_inv (snd (deleteProductFromCart ok user productId s))"
proof (cases "Cart_findOne (User.email user) s")
  case None
  with assms show ?thesis by (simp add: deleteProductFromCart_def)
next
  case (Some cart)
  with assms have inv: "cart_inv cart" by (simp add: store_inv_found)
  show ?thesis
  proof (cases "cartItems cart")
    case None
    with Some assms show ?thesis
      by (simp add: deleteProductFromCart_def split: option.splits sum.splits)
  next
    case items: (Some items)
    have "cart_inv (cart\<lparr>cartItems := Some items'\<rparr>)"
      if "filter_js (otherProduct productId) items = Inr items'" for items'
      using cart_inv_filter [OF inv items] filter_js_sub [OF that] by simp
    with Some items assms show ?thesis
      by (simp add: deleteProductFromCart_def Let_def store_inv_Cart_save
          split: option.splits sum.splits)
  qed
qed

lemma checkout_preserves:
  assumes "store_inv s"
  shows "store_inv (snd (snd (checkout ok user s)))"
proof -
  have "cart_inv (cart\<lparr>cartItems := Some []\<rparr>)" for cart
    by (simp add: cart_inv_def)
  with assms show ?thesis
    by (auto simp: checkout_def Let_def intro!: store_inv_Cart_save split: option.splits)
qed

lemma serve_preserves: "store_inv s \<Longrightarrow> store_inv (serve cfg r s)"
proof (cases r)
  case (Pair ok req)
  assume "store_inv s"
  with Pair show ?thesis
    by (cases req) (simp_all add: add_preserves update_preserves delete_preserves checkout_preserves)
qed

lemma serve_all_preserves: "store_inv s \<Longrightarrow> store_inv (serve_all cfg rs s)"
  by (induction rs arbitrary: s) (simp_all add: serve_preserves)

text \<open>
  C9. The invariant that every cart of the store names each product id at most once is
  preserved by \<open>addProductToCart\<close>, \<open>updateProductInCart\<close>,
  \<open>deleteProductFromCart\<close> and \<open>checkout\<close>, whether the call succeeds or fails
  and whatever the store answers to the writes; hence it holds after every history of
  requests served one after the other from a store where it holds, such as a store
  without carts.
\<close>

theorem uniqueness_invariant_preserved:
  assumes "store_inv s"
  shows "store_inv (snd (addProductToCart ok cfg user productId qty s))
       \<and> store_inv (snd (updateProductInCart ok user productId qty s))
       \<and> store_inv (snd (deleteProductFromCart ok user productId s))
       \<and> store_inv (snd (snd (checkout ok user s)))
       \<and> store_inv (serve_all cfg requests s)"
  using assms
  by (simp add: add_preserves update_preserves delete_preserves checkout_preserves
      serve_all_preserves)

theorem uniqueness_invariant_preserved_witness:
  "store_inv shop
   \<and> store_inv (snd (addProductToCart all_ok cfg0 alice poster_id (Num 1) shop))
   \<and> store_inv (snd (updateProductInCart all_ok alice mug_id (Num 4) shop))
   \<and> store_inv (snd (deleteProductFromCart all_ok alice mug_id shop))
   \<and> store_inv (snd (snd (checkout all_ok alice shop)))
   \<and> store_inv (serve_all cfg0
        [(all_ok, Add bob mug_id (Num 2)), (all_ok, Add bob mug_id (Num 3)),
         (all_ok, Update bob mug_id (Num 5)), (all_ok, Add bob shirt_id (Num 1)),
         (all_ok, Delete bob mug_id), (all_ok, Checkout bob)] shop)"
proof -
  have inv: "store_inv shop"
    by (simp add: store_inv_def cart_inv_def example_defs)
  from uniqueness_invariant_preserved [OF inv] inv show ?thesis by blast
qed

end
